theory Spec2Isabelle
  imports Main
begin

section \<open>Values of the host language\<close>

text \<open>
  The extension is TypeScript. A handler that dereferences \<^verbatim>\<open>null\<close> or
  \<^verbatim>\<open>undefined\<close> throws a \<^verbatim>\<open>TypeError\<close>; the model returns it as a value.
  The two source files contain no \<^verbatim>\<open>throw\<close> of their own. One call into the
  editor throws on an input the code can give it: \<^verbatim>\<open>commands.registerCommand\<close>
  with an identifier that is registered already (\<open>CommandExists\<close>, with the
  identifier). The other calls into the editor and into the language-client library are
  taken to return normally.
\<close>

datatype js_error = TypeError | CommandExists string

text \<open>
  A configuration value as \<^verbatim>\<open>WorkspaceConfiguration.get\<close> hands it out. The settings
  read here are a string (\<^verbatim>\<open>watchman\<close>) and a boolean (\<^verbatim>\<open>autoDownloadGQL\<close>);
  \<^verbatim>\<open>undefined\<close> is the value of a key that is not set.
\<close>

datatype js_value = Undefined | Null | Bool bool | String string

text \<open>The string a template literal \<^verbatim>\<open>`${v}`\<close> inserts for a value.\<close>

fun template :: "js_value \<Rightarrow> string" where
  "template Undefined = ''undefined''"
| "template Null = ''null''"
| "template (Bool True) = ''true''"
| "template (Bool False) = ''false''"
| "template (String s) = s"

section \<open>Launch arguments of the language server\<close>

text \<open>
  \<^verbatim>\<open>Workspace.getConfiguration(EXT_NAME, folder.uri)\<close>: the per-folder settings,
  a function from key to value. \<^verbatim>\<open>has\<close> holds when the key's value is not
  \<^verbatim>\<open>undefined\<close>.
\<close>

type_synonym WorkspaceConfiguration = "string \<Rightarrow> js_value"

definition has :: "WorkspaceConfiguration \<Rightarrow> string \<Rightarrow> bool" where
  "has configuration key = (configuration key \<noteq> Undefined)"

definition get :: "WorkspaceConfiguration \<Rightarrow> string \<Rightarrow> js_value" where
  "get configuration key = configuration key"

text \<open>
  \<^verbatim>\<open>array.filter(Boolean)\<close> on an array of strings and \<^verbatim>\<open>null\<close>s: it drops
  \<^verbatim>\<open>null\<close> and the empty string, the two falsy values of that type.
\<close>

fun filter_Boolean :: "string option list \<Rightarrow> string list" where
  "filter_Boolean [] = []"
| "filter_Boolean (None # xs) = filter_Boolean xs"
| "filter_Boolean (Some s # xs) = (if s = [] then filter_Boolean xs else s # filter_Boolean xs)"

text \<open>
  \<^verbatim>\<open>serverOptions.run.args\<close> of \<^verbatim>\<open>createClientForWorkspace\<close>
  (extension.ts, lines 99 to 106).
\<close>

definition run_args :: "WorkspaceConfiguration \<Rightarrow> string list" where
  "run_args configuration =
     filter_Boolean
       [ if has configuration ''watchman''
         then Some (''--watchman='' @ template (get configuration ''watchman''))
         else None,
         if has configuration ''autoDownloadGQL''
         then Some (''--auto-download-gql='' @ template (get configuration ''autoDownloadGQL''))
         else None ]"

text \<open>
  The argument list as the specification words it: for each of the keys
  \<^verbatim>\<open>watchman\<close>, \<^verbatim>\<open>autoDownloadGQL\<close>, in that order, one entry
  \<^verbatim>\<open>--key=value\<close> when the key is set and nothing otherwise.
\<close>

definition spec_entry :: "WorkspaceConfiguration \<Rightarrow> string \<Rightarrow> string list" where
  "spec_entry configuration key =
     (if has configuration key then [''--'' @ key @ ''='' @ template (get configuration key)] else [])"

definition spec_args :: "WorkspaceConfiguration \<Rightarrow> string list" where
  "spec_args configuration =
     spec_entry configuration ''watchman'' @ spec_entry configuration ''autoDownloadGQL''"

text \<open>
  The same with the flag name the code emits given beside the key: the entry of a key
  that is set is \<^verbatim>\<open>--flag=value\<close>.
\<close>

definition flag_entry :: "WorkspaceConfiguration \<Rightarrow> string \<Rightarrow> string \<Rightarrow> string list" where
  "flag_entry configuration flag key =
     (if has configuration key then [''--'' @ flag @ ''='' @ template (get configuration key)] else [])"

text \<open>Configurations used as concrete inputs.\<close>

definition config_watchman :: WorkspaceConfiguration where
  "config_watchman = (\<lambda>_. Undefined)(''watchman'' := String ''npx watchman'')"

definition config_autoDownload :: WorkspaceConfiguration where
  "config_autoDownload = (\<lambda>_. Undefined)(''autoDownloadGQL'' := Bool True)"

section \<open>The status indicator (ClientStatusBarItem)\<close>

text \<open>
  What the handlers do to the world outside the two files is kept as a trace of calls,
  oldest first.
\<close>

datatype effect =
    console_log string string
  | getConfiguration string
  | findConfigFile string
  | createOutputChannel string
  | new_LanguageClient string "string list"
  | new_ClientStatusBarItem string
  | client_start string
  | clients_set string bool
  | clients_delete string
  | client_stop string
  | outputChannel_hide string
  | outputChannel_dispose string
  | statusBarItem_dispose string
  | client_error string string string
  | outputChannel_show string bool
  | item_dispose
  | command_dispose string

text \<open>
  \<^verbatim>\<open>State\<close> of the language-client library and \<^verbatim>\<open>Status\<close> of the indicator
  with its table \<^verbatim>\<open>STATUS_BAR_UI\<close>, whose colour for \<^verbatim>\<open>ok\<close> is the literal
  \<^verbatim>\<open>'while'\<close>.
\<close>

datatype State = Stopped | Running | Starting

datatype Status = init | ok | error

record ui =
  icon :: string
  color :: string
  tooltip :: string

definition STATUS_BAR_ITEM_NAME :: string where
  "STATUS_BAR_ITEM_NAME = ''GQL''"

fun STATUS_BAR_UI :: "Status \<Rightarrow> ui" where
  "STATUS_BAR_UI init =
     \<lparr>icon = ''sync'', color = ''white'', tooltip = ''Graphql language server is initializing.''\<rparr>"
| "STATUS_BAR_UI ok =
     \<lparr>icon = ''plug'', color = ''while'', tooltip = ''Graphql language server is running.''\<rparr>"
| "STATUS_BAR_UI error =
     \<lparr>icon = ''stop'', color = ''red'', tooltip = ''Graphql language server is not running.''\<rparr>"

text \<open>
  The editor's status bar item: the properties the class writes, and whether it is
  shown. \<^verbatim>\<open>window.createStatusBarItem\<close> returns it hidden, with nothing set.
\<close>

record StatusBarItem =
  item_text :: string
  item_tooltip :: "string option"
  item_color :: "string option"
  item_command :: "string option"
  item_visible :: bool

definition createStatusBarItem :: StatusBarItem where
  "createStatusBarItem =
     \<lparr>item_text = [], item_tooltip = None, item_color = None, item_command = None,
      item_visible = False\<rparr>"

text \<open>
  The parts of a \<^verbatim>\<open>LanguageClient\<close> the two files read: the launch arguments it was
  built with, the name of its output channel, the URI string of
  \<^verbatim>\<open>clientOptions.workspaceFolder\<close>, and \<^verbatim>\<open>initializeResult\<close>, which the library
  fills in once the server has answered. \<^verbatim>\<open>fileExtensions\<close> is a field the server
  adds to its answer; it is optional in the answer's type.
\<close>

record InitializeResult =
  fileExtensions :: "string list option"

record LanguageClient =
  args :: "string list"
  outputChannel :: string
  workspaceFolder :: string
  initializeResult :: "InitializeResult option"

record TextDocument =
  doc_uri :: string

record TextEditor =
  document :: TextDocument

record DocumentFilter =
  scheme :: string
  pattern :: string

text \<open>
  Two functions of the editor are parameters of the model:
  \<^verbatim>\<open>workspace.getWorkspaceFolder\<close>, from a document's URI to the URI string of the
  folder that contains it (\<^verbatim>\<open>undefined\<close> is \<open>None\<close>), and \<^verbatim>\<open>languages.match\<close>,
  the score of a document against a filter (0 is no match).
\<close>

record vscode =
  getWorkspaceFolder :: "string \<Rightarrow> string option"
  languages_match :: "DocumentFilter \<Rightarrow> TextDocument \<Rightarrow> nat"

text \<open>
  The object itself: \<^verbatim>\<open>_item\<close>, \<^verbatim>\<open>_client\<close> (\<^verbatim>\<open>null\<close> is \<open>None\<close>) and
  \<^verbatim>\<open>_disposables\<close>. Each object has one holder in the model, so it is kept by value.
\<close>

datatype disposable = the_item | the_command string

record ClientStatusBarItem =
  item :: "StatusBarItem option"
  client :: "LanguageClient option"
  disposables :: "disposable list"

text \<open>
  An indicator together with what the editor and the client hold for it: the commands
  registered under its name, whether its three listeners are subscribed, and the trace
  of outside calls.
\<close>

record indicator =
  this :: ClientStatusBarItem
  registered_commands :: "string list"
  onDidChangeActiveTextEditor :: bool
  onDidChangeState :: bool
  onReady :: bool
  trace :: "effect list"

text \<open>\<^verbatim>\<open>_setStatus\<close>, \<^verbatim>\<open>_show\<close>, \<^verbatim>\<open>_hide\<close>: each writes through \<^verbatim>\<open>this._item\<close>.\<close>

definition setStatus :: "Status \<Rightarrow> ClientStatusBarItem \<Rightarrow> js_error + ClientStatusBarItem" where
  "setStatus status self =
     (let ui = STATUS_BAR_UI status in
      case item self of
        None \<Rightarrow> Inl TypeError
      | Some it \<Rightarrow>
          Inr (self\<lparr>item := Some (it\<lparr>item_text := ''$('' @ icon ui @ '') '' @ STATUS_BAR_ITEM_NAME,
                                       item_tooltip := Some (tooltip ui),
                                       item_color := Some (color ui)\<rparr>)\<rparr>))"

definition show_item :: "ClientStatusBarItem \<Rightarrow> js_error + ClientStatusBarItem" where
  "show_item self =
     (case item self of
        None \<Rightarrow> Inl TypeError
      | Some it \<Rightarrow> Inr (self\<lparr>item := Some (it\<lparr>item_visible := True\<rparr>)\<rparr>))"

definition hide_item :: "ClientStatusBarItem \<Rightarrow> js_error + ClientStatusBarItem" where
  "hide_item self =
     (case item self of
        None \<Rightarrow> Inl TypeError
      | Some it \<Rightarrow> Inr (self\<lparr>item := Some (it\<lparr>item_visible := False\<rparr>)\<rparr>))"

text \<open>\<^verbatim>\<open>_getWorkspace\<close> and \<^verbatim>\<open>_checkDocumentInsideWorkspace\<close>.\<close>

definition getWorkspace :: "ClientStatusBarItem \<Rightarrow> js_error + string" where
  "getWorkspace self =
     (case client self of None \<Rightarrow> Inl TypeError | Some c \<Rightarrow> Inr (workspaceFolder c))"

definition checkDocumentInsideWorkspace ::
    "vscode \<Rightarrow> ClientStatusBarItem \<Rightarrow> TextDocument \<Rightarrow> js_error + bool" where
  "checkDocumentInsideWorkspace api self doc =
     (case getWorkspaceFolder api (doc_uri doc) of
        None \<Rightarrow> Inr False
      | Some folder \<Rightarrow>
          (case getWorkspace self of Inl e \<Rightarrow> Inl e | Inr w \<Rightarrow> Inr (folder = w)))"

text \<open>\<^verbatim>\<open>Array.prototype.join\<close> on strings, and the filter built from the extensions.\<close>

fun join :: "string \<Rightarrow> string list \<Rightarrow> string" where
  "join sep [] = []"
| "join sep [x] = x"
| "join sep (x # y # ys) = x @ sep @ join sep (y # ys)"

definition extension_filter :: "string list \<Rightarrow> DocumentFilter" where
  "extension_filter extensions =
     \<lparr>scheme = ''file'', pattern = ''**/*.{'' @ join '','' extensions @ ''}''\<rparr>"

text \<open>\<^verbatim>\<open>_updateVisibility\<close>: computes \<^verbatim>\<open>hide\<close>, then hides or shows.\<close>

definition compute_hide ::
    "vscode \<Rightarrow> ClientStatusBarItem \<Rightarrow> TextEditor option \<Rightarrow> js_error + bool" where
  "compute_hide api self textEditor =
     (case textEditor of
        None \<Rightarrow> Inr True
      | Some ed \<Rightarrow>
          (case checkDocumentInsideWorkspace api self (document ed) of
             Inl e \<Rightarrow> Inl e
           | Inr False \<Rightarrow> Inr True
           | Inr True \<Rightarrow>
               (case client self of
                  None \<Rightarrow> Inl TypeError
                | Some c \<Rightarrow>
                    (case initializeResult c of
                       None \<Rightarrow> Inr False
                     | Some r \<Rightarrow>
                         (case fileExtensions r of
                            None \<Rightarrow> Inl TypeError
                          | Some extensions \<Rightarrow>
                              Inr (languages_match api (extension_filter extensions) (document ed) = 0))))))"

definition updateVisibility ::
    "vscode \<Rightarrow> TextEditor option \<Rightarrow> ClientStatusBarItem \<Rightarrow> js_error + ClientStatusBarItem" where
  "updateVisibility api textEditor self =
     (case compute_hide api self textEditor of
        Inl e \<Rightarrow> Inl e
      | Inr hide \<Rightarrow> (if hide then hide_item self else show_item self))"

text \<open>Sequencing of steps that can throw.\<close>

definition and_then :: "js_error + 'a \<Rightarrow> ('a \<Rightarrow> js_error + 'b) \<Rightarrow> js_error + 'b" where
  "and_then r f = (case r of Inl e \<Rightarrow> Inl e | Inr x \<Rightarrow> f x)"

definition on_this ::
    "(ClientStatusBarItem \<Rightarrow> js_error + ClientStatusBarItem) \<Rightarrow> indicator \<Rightarrow> js_error + indicator" where
  "on_this f w = (case f (this w) of Inl e \<Rightarrow> Inl e | Inr self \<Rightarrow> Inr (w\<lparr>this := self\<rparr>))"

text \<open>
  \<^verbatim>\<open>_addOnClickToShowOutputChannel\<close>: registers the command, binds it to the item
  and returns the registration's disposable.
\<close>

definition addOnClickToShowOutputChannel :: "indicator \<Rightarrow> js_error + disposable \<times> indicator" where
  "addOnClickToShowOutputChannel w =
     (case client (this w) of
        None \<Rightarrow> Inl TypeError
      | Some c \<Rightarrow>
          (let commandName = ''showOutputChannel-'' @ outputChannel c in
           case item (this w) of
             None \<Rightarrow> Inl TypeError
           | Some it \<Rightarrow>
               Inr (the_command commandName,
                    w\<lparr>this := (this w)\<lparr>item := Some (it\<lparr>item_command := Some commandName\<rparr>)\<rparr>,
                      registered_commands := registered_commands w @ [commandName]\<rparr>)))"

text \<open>
  \<^verbatim>\<open>_registerStatusChangeListeners\<close>: subscribes to the client's state changes and
  to its ready promise. Neither returned handle is kept.
\<close>

definition registerStatusChangeListeners :: "indicator \<Rightarrow> js_error + indicator" where
  "registerStatusChangeListeners w =
     (case client (this w) of
        None \<Rightarrow> Inl TypeError
      | Some c \<Rightarrow> Inr (w\<lparr>onDidChangeState := True, onReady := True\<rparr>))"

text \<open>
  The constructor, given the editor's \<^verbatim>\<open>window.activeTextEditor\<close>. The handle
  returned by \<^verbatim>\<open>window.onDidChangeActiveTextEditor\<close> is not kept either.
\<close>

definition ClientStatusBarItem_constructor ::
    "vscode \<Rightarrow> TextEditor option \<Rightarrow> LanguageClient \<Rightarrow> js_error + indicator" where
  "ClientStatusBarItem_constructor api activeTextEditor c =
     (let w0 = \<lparr>this = \<lparr>item = Some createStatusBarItem, client = Some c, disposables = [the_item]\<rparr>,
                registered_commands = [], onDidChangeActiveTextEditor = False,
                onDidChangeState = False, onReady = False, trace = []\<rparr>
      in and_then (addOnClickToShowOutputChannel w0) (\<lambda>(d, w1).
         and_then (on_this (setStatus init)
                     (w1\<lparr>this := (this w1)\<lparr>disposables := disposables (this w1) @ [d]\<rparr>\<rparr>)) (\<lambda>w2.
         and_then (registerStatusChangeListeners w2) (\<lambda>w3.
         and_then (on_this (updateVisibility api activeTextEditor) w3) (\<lambda>w4.
         Inr (w4\<lparr>onDidChangeActiveTextEditor := True\<rparr>))))))"

text \<open>
  \<^verbatim>\<open>dispose\<close>: disposes what \<^verbatim>\<open>_disposables\<close> holds, the item and the command
  registration, then sets \<^verbatim>\<open>_item\<close> and \<^verbatim>\<open>_client\<close> to \<^verbatim>\<open>null\<close>.
\<close>

fun dispose_each :: "disposable list \<Rightarrow> indicator \<Rightarrow> indicator" where
  "dispose_each [] w = w"
| "dispose_each (the_item # ds) w = dispose_each ds (w\<lparr>trace := trace w @ [item_dispose]\<rparr>)"
| "dispose_each (the_command n # ds) w =
     dispose_each ds (w\<lparr>registered_commands := removeAll n (registered_commands w),
                        trace := trace w @ [command_dispose n]\<rparr>)"

definition dispose :: "indicator \<Rightarrow> indicator" where
  "dispose w =
     (let w1 = dispose_each (disposables (this w)) w
      in w1\<lparr>this := (this w1)\<lparr>item := None, client := None\<rparr>\<rparr>)"

text \<open>
  The events that reach an indicator. \<^verbatim>\<open>Initialized\<close> is the library storing the
  server's answer in the client; \<^verbatim>\<open>Click\<close> is the user clicking the item.
\<close>

datatype event =
    DidChangeState State State
  | ReadyResolved
  | ReadyRejected
  | DidChangeActiveTextEditor "TextEditor option"
  | Initialized InitializeResult
  | Click

text \<open>The listener given to \<^verbatim>\<open>onDidChangeState\<close> (the old state is not read).\<close>

definition stateChange_listener :: "State \<Rightarrow> State \<Rightarrow> indicator \<Rightarrow> js_error + indicator" where
  "stateChange_listener oldState newState w =
     (if newState = Running then on_this (setStatus ok) w
      else if newState = Stopped then on_this (setStatus error) w
      else Inr w)"

text \<open>The callback of the command: \<^verbatim>\<open>this._client.outputChannel.show()\<close>.\<close>

definition showOutputChannel_command :: "indicator \<Rightarrow> js_error + indicator" where
  "showOutputChannel_command w =
     (case client (this w) of
        None \<Rightarrow> Inl TypeError
      | Some c \<Rightarrow> Inr (w\<lparr>trace := trace w @ [outputChannel_show (outputChannel c) False]\<rparr>))"

text \<open>
  Delivery of one event: a listener runs when it is subscribed. A click runs the
  command bound to the item when the item exists, is shown, and the command is
  registered.
\<close>

fun deliver :: "vscode \<Rightarrow> event \<Rightarrow> indicator \<Rightarrow> js_error + indicator" where
  "deliver api (DidChangeState oldState newState) w =
     (if onDidChangeState w then stateChange_listener oldState newState w else Inr w)"
| "deliver api ReadyResolved w =
     (if onReady w then on_this (setStatus ok) w else Inr w)"
| "deliver api ReadyRejected w =
     (if onReady w then on_this (setStatus error) w else Inr w)"
| "deliver api (DidChangeActiveTextEditor textEditor) w =
     (if onDidChangeActiveTextEditor w then on_this (updateVisibility api textEditor) w else Inr w)"
| "deliver api (Initialized r) w =
     (case client (this w) of
        None \<Rightarrow> Inr w
      | Some c \<Rightarrow> Inr (w\<lparr>this := (this w)\<lparr>client := Some (c\<lparr>initializeResult := Some r\<rparr>)\<rparr>\<rparr>))"
| "deliver api Click w =
     (case item (this w) of
        None \<Rightarrow> Inr w
      | Some it \<Rightarrow>
          (case item_command it of
             None \<Rightarrow> Inr w
           | Some n \<Rightarrow>
               (if item_visible it \<and> n \<in> set (registered_commands w)
                then showOutputChannel_command w else Inr w)))"

fun deliver_all :: "vscode \<Rightarrow> event list \<Rightarrow> indicator \<Rightarrow> js_error + indicator" where
  "deliver_all api [] w = Inr w"
| "deliver_all api (ev # evs) w =
     (case deliver api ev w of Inl e \<Rightarrow> Inl e | Inr w' \<Rightarrow> deliver_all api evs w')"

text \<open>
  The status an indicator shows: the item carries the text, tooltip and colour that
  \<^verbatim>\<open>STATUS_BAR_UI\<close> gives for it. The class stores no status of its own.
\<close>

definition renders :: "Status \<Rightarrow> StatusBarItem \<Rightarrow> bool" where
  "renders status it =
     (item_text it = ''$('' @ icon (STATUS_BAR_UI status) @ '') GQL''
      \<and> item_tooltip it = Some (tooltip (STATUS_BAR_UI status))
      \<and> item_color it = Some (color (STATUS_BAR_UI status)))"

definition shows_status :: "Status \<Rightarrow> indicator \<Rightarrow> bool" where
  "shows_status status w = (case item (this w) of None \<Rightarrow> False | Some it \<Rightarrow> renders status it)"

text \<open>
  The transition table of the specification: the status after an event, from the status
  before it.
\<close>

fun transition :: "Status \<Rightarrow> event \<Rightarrow> Status" where
  "transition s (DidChangeState oldState Running) = ok"
| "transition s (DidChangeState oldState Stopped) = error"
| "transition s (DidChangeState oldState Starting) = s"
| "transition s ReadyResolved = ok"
| "transition s ReadyRejected = error"
| "transition s (DidChangeActiveTextEditor textEditor) = s"
| "transition s (Initialized r) = s"
| "transition s Click = s"

text \<open>An indicator that has been constructed and not disposed.\<close>

definition live :: "indicator \<Rightarrow> bool" where
  "live w =
     (item (this w) \<noteq> None \<and> client (this w) \<noteq> None
      \<and> onDidChangeState w \<and> onReady w \<and> onDidChangeActiveTextEditor w)"

text \<open>
  The events that set a status: state changes and the settling of the ready promise.
\<close>

fun status_event :: "event \<Rightarrow> bool" where
  "status_event (DidChangeState oldState newState) = True"
| "status_event ReadyResolved = True"
| "status_event ReadyRejected = True"
| "status_event (DidChangeActiveTextEditor textEditor) = False"
| "status_event (Initialized r) = False"
| "status_event Click = False"

text \<open>
  A client whose \<^verbatim>\<open>initializeResult\<close>, once there, carries the extension list.
\<close>

definition advertises_extensions :: "LanguageClient \<Rightarrow> bool" where
  "advertises_extensions c =
     (case initializeResult c of None \<Rightarrow> True | Some r \<Rightarrow> fileExtensions r \<noteq> None)"

text \<open>
  The visibility rule as the specification words it, for an indicator of the root
  \<open>root\<close> whose client has the initialization result \<open>result\<close>: hidden when no
  document is focused or the focused document's root is another one; otherwise visible
  when there is no result yet; otherwise visible exactly when the document matches the
  filter built from the extension set. (A result without extension set is outside the
  rule; the value given for it here is never used.)
\<close>

definition spec_visible ::
    "vscode \<Rightarrow> string \<Rightarrow> InitializeResult option \<Rightarrow> TextEditor option \<Rightarrow> bool" where
  "spec_visible api root result focused =
     (case focused of
        None \<Rightarrow> False
      | Some ed \<Rightarrow>
          (if getWorkspaceFolder api (doc_uri (document ed)) \<noteq> Some root then False
           else (case result of
                   None \<Rightarrow> True
                 | Some r \<Rightarrow>
                     (case fileExtensions r of
                        None \<Rightarrow> False
                      | Some extensions \<Rightarrow>
                          languages_match api (extension_filter extensions) (document ed) \<noteq> 0))))"

text \<open>An item the user can click: it is shown and its command is registered.\<close>

definition clickable :: "indicator \<Rightarrow> bool" where
  "clickable w =
     (case item (this w) of
        None \<Rightarrow> False
      | Some it \<Rightarrow>
          (case item_command it of
             None \<Rightarrow> False
           | Some n \<Rightarrow> item_visible it \<and> n \<in> set (registered_commands w)))"

section \<open>The registry of clients (extension.ts)\<close>

text \<open>
  A workspace folder as the editor supplies it. \<^verbatim>\<open>Uri.toString()\<close> writes the
  scheme, a colon and the rest of the URI; \<^verbatim>\<open>fsPath\<close> is the path on disk.
\<close>

record Uri =
  uri_scheme :: string
  uri_rest :: string
  fsPath :: string

definition uri_toString :: "Uri \<Rightarrow> string" where
  "uri_toString u = uri_scheme u @ '':'' @ uri_rest u"

record WorkspaceFolder =
  uri :: Uri
  name :: string

text \<open>
  What \<^verbatim>\<open>createClientForWorkspace\<close> reads from outside: the settings of a folder
  (by its URI string), \<^verbatim>\<open>path.join\<close> on one path, and the marker-file probe
  \<^verbatim>\<open>findGQLConfigFile.silent\<close>, as the truth value the \<^verbatim>\<open>if\<close> tests.
\<close>

record workspace =
  configuration_of :: "string \<Rightarrow> WorkspaceConfiguration"
  path_join :: "string \<Rightarrow> string"
  findConfigFile_silent :: "string \<Rightarrow> bool"

text \<open>
  The \<^verbatim>\<open>Client\<close> of the interface: its language client. Its indicator is the
  object of the previous section, made by \<^verbatim>\<open>new ClientStatusBarItem(client)\<close>; the
  registry only creates and disposes it, which the trace records
  (\<open>new_ClientStatusBarItem\<close>, \<open>statusBarItem_dispose\<close>).
\<close>

record Client =
  c_client :: LanguageClient

text \<open>
  The editor keeps one table of command identifiers for all indicators.
  \<^verbatim>\<open>commands.registerCommand\<close> throws for an identifier that is in the table
  and adds it otherwise; disposing the registration removes it. The identifier an
  indicator registers is \<^verbatim>\<open>commandName\<close> of \<^verbatim>\<open>_addOnClickToShowOutputChannel\<close>,
  built from the name of the client's output channel.
\<close>

definition registerCommand :: "string \<Rightarrow> string list \<Rightarrow> js_error + string list" where
  "registerCommand command registered =
     (if command \<in> set registered then Inl (CommandExists command) else Inr (registered @ [command]))"

definition commandName :: "LanguageClient \<Rightarrow> string" where
  "commandName c = ''showOutputChannel-'' @ outputChannel c"

text \<open>
  \<^verbatim>\<open>client.dispose()\<close>: disposes the three subscriptions in order, the running
  client, the output channel (hidden, then disposed) and the indicator. It returns
  \<^verbatim>\<open>undefined\<close>. Disposing the indicator unregisters its command.
\<close>

definition Client_dispose :: "Client \<Rightarrow> effect list" where
  "Client_dispose c =
     [client_stop (workspaceFolder (c_client c)),
      outputChannel_hide (outputChannel (c_client c)),
      outputChannel_dispose (outputChannel (c_client c)),
      statusBarItem_dispose (workspaceFolder (c_client c))]"

definition Client_dispose_commands :: "Client \<Rightarrow> string list \<Rightarrow> string list" where
  "Client_dispose_commands c registered = removeAll (commandName (c_client c)) registered"

text \<open>
  \<^verbatim>\<open>initializationFailedHandler\<close> of the client options: what it does and the value
  it returns (\<^verbatim>\<open>false\<close>: the library does not try again).
\<close>

definition initializationFailedHandler :: "LanguageClient \<Rightarrow> string \<Rightarrow> effect list \<times> bool" where
  "initializationFailedHandler c message =
     ([client_error (outputChannel c) ''Server initialization failed:'' message,
       outputChannel_show (outputChannel c) True],
      False)"

text \<open>
  \<^verbatim>\<open>createClientForWorkspace\<close>, given the editor's registered commands: what it
  returns or throws, the registered commands after it, and its trace. It returns
  \<^verbatim>\<open>null\<close> when the folder has no marker file. Otherwise it creates the output
  channel and the language client, then the indicator, whose constructor registers the
  command; when that throws, the call ends there, before \<^verbatim>\<open>client.start()\<close>.
\<close>

definition createClientForWorkspace ::
    "workspace \<Rightarrow> string list \<Rightarrow> WorkspaceFolder
       \<Rightarrow> (js_error + Client option) \<times> string list \<times> effect list" where
  "createClientForWorkspace env registered folder =
     (let key = uri_toString (uri folder);
          configuration = configuration_of env key;
          probed = path_join env (fsPath (uri folder))
      in if \<not> findConfigFile_silent env probed
         then (Inr None, registered, [getConfiguration key, findConfigFile probed])
         else
           (let c = \<lparr>args = run_args configuration,
                     outputChannel = ''Graphql-'' @ name folder,
                     workspaceFolder = key,
                     initializeResult = None\<rparr>;
                made = [getConfiguration key, findConfigFile probed,
                        createOutputChannel (outputChannel c),
                        new_LanguageClient key (args c)]
            in case registerCommand (commandName c) registered of
                 Inl e \<Rightarrow> (Inl e, registered, made)
               | Inr registered' \<Rightarrow>
                   (Inr (Some \<lparr>c_client = c\<rparr>), registered',
                    made @ [new_ClientStatusBarItem key, client_start key])))"

text \<open>
  The module's \<^verbatim>\<open>clients\<close>, a \<^verbatim>\<open>Map\<close> from URI string to client or \<^verbatim>\<open>null\<close>:
  its entries in insertion order. \<^verbatim>\<open>set\<close> replaces the value of a key in place or
  appends a new entry; \<^verbatim>\<open>delete\<close> removes the key.
\<close>

type_synonym clients_map = "(string \<times> Client option) list"

definition Map_has :: "string \<Rightarrow> clients_map \<Rightarrow> bool" where
  "Map_has key m = (key \<in> set (map fst m))"

fun Map_set :: "string \<Rightarrow> Client option \<Rightarrow> clients_map \<Rightarrow> clients_map" where
  "Map_set key v [] = [(key, v)]"
| "Map_set key v ((k, c) # m) = (if k = key then (k, v) # m else (k, c) # Map_set key v m)"

definition Map_delete :: "string \<Rightarrow> clients_map \<Rightarrow> clients_map" where
  "Map_delete key m = filter (\<lambda>(k, c). k \<noteq> key) m"

text \<open>
  \<^verbatim>\<open>workspaceFoldersIndex\<close> is a plain object: reading a key gives \<^verbatim>\<open>true\<close> for
  a key that was assigned, and for a property name of \<^verbatim>\<open>Object.prototype\<close> the
  inherited value, which is truthy as well.
\<close>

definition Object_prototype :: "string list" where
  "Object_prototype =
     [''constructor'', ''__defineGetter__'', ''__defineSetter__'', ''hasOwnProperty'',
      ''__lookupGetter__'', ''__lookupSetter__'', ''isPrototypeOf'', ''propertyIsEnumerable'',
      ''toString'', ''valueOf'', ''__proto__'', ''toLocaleString'']"

definition index_truthy :: "string list \<Rightarrow> string \<Rightarrow> bool" where
  "index_truthy workspaceFoldersIndex key =
     (key \<in> set workspaceFoldersIndex \<or> key \<in> set Object_prototype)"

text \<open>
  The first loop of \<^verbatim>\<open>createClientForWorkspaces\<close>, over the folders: the state is
  the map, the keys assigned in the index, the editor's registered commands and the
  trace. When \<^verbatim>\<open>createClientForWorkspace\<close> throws, the loop ends with that error
  and the state as it is then: the folder has no entry and the later folders are not
  visited.
\<close>

fun add_folders ::
    "workspace \<Rightarrow> WorkspaceFolder list \<Rightarrow> clients_map \<times> string list \<times> string list \<times> effect list
       \<Rightarrow> js_error option \<times> clients_map \<times> string list \<times> string list \<times> effect list" where
  "add_folders env [] st = (None, st)"
| "add_folders env (folder # rest) (m, idx, registered, tr) =
     (let key = uri_toString (uri folder) in
      if \<not> Map_has key m
      then (case createClientForWorkspace env registered folder of
              (Inl e, registered', effs) \<Rightarrow> (Some e, m, idx, registered', tr @ effs)
            | (Inr c, registered', effs) \<Rightarrow>
                add_folders env rest
                  (Map_set key c m, idx @ [key], registered',
                   tr @ effs @ [console_log ''adding client'' key, clients_set key (c \<noteq> None)]))
      else add_folders env rest (m, idx @ [key], registered, tr))"

text \<open>
  The second loop, \<^verbatim>\<open>clients.forEach\<close>: it visits the entries in order; the
  callback deletes only the entry it is visiting, so the entries still to visit are the
  rest of the list. The key is deleted first, the client disposed after.
\<close>

fun remove_stale ::
    "string list \<Rightarrow> (string \<times> Client option) list \<Rightarrow> clients_map \<times> string list \<times> effect list
       \<Rightarrow> clients_map \<times> string list \<times> effect list" where
  "remove_stale idx [] st = st"
| "remove_stale idx ((key, c) # rest) (m, registered, tr) =
     (if \<not> index_truthy idx key
      then remove_stale idx rest
             (Map_delete key m,
              (case c of Some cl \<Rightarrow> Client_dispose_commands cl registered | None \<Rightarrow> registered),
              tr @ [console_log ''deleting client'' key, clients_delete key]
                 @ (case c of Some cl \<Rightarrow> Client_dispose cl | None \<Rightarrow> []))
      else remove_stale idx rest (m, registered, tr))"

text \<open>
  The state a call works on, the module's map and the editor's commands, and what a
  call leaves: the error it threw, if any, the state after it and its trace.
\<close>

record extension =
  clients :: clients_map
  commands :: "string list"

record result =
  thrown :: "js_error option"
  after :: extension
  calls :: "effect list"

text \<open>
  \<^verbatim>\<open>createClientForWorkspaces\<close>, given \<^verbatim>\<open>Workspace.workspaceFolders\<close>
  (\<^verbatim>\<open>undefined\<close> when no folder is open). An error thrown in the first loop leaves
  the function: the second loop does not run.
\<close>

definition createClientForWorkspaces ::
    "workspace \<Rightarrow> WorkspaceFolder list option \<Rightarrow> extension \<Rightarrow> result" where
  "createClientForWorkspaces env workspaceFolders s =
     (let folders = (case workspaceFolders of None \<Rightarrow> [] | Some fs \<Rightarrow> fs)
      in case add_folders env folders (clients s, [], commands s, []) of
           (Some e, m1, idx, registered1, tr1) \<Rightarrow>
             \<lparr>thrown = Some e, after = \<lparr>clients = m1, commands = registered1\<rparr>, calls = tr1\<rparr>
         | (None, m1, idx, registered1, tr1) \<Rightarrow>
             (case remove_stale idx m1 (m1, registered1, tr1) of
                (m2, registered2, tr2) \<Rightarrow>
                  \<lparr>thrown = None, after = \<lparr>clients = m2, commands = registered2\<rparr>, calls = tr2\<rparr>))"

text \<open>The state when the module is loaded, with no command of the extension registered.\<close>

definition initial :: extension where
  "initial = \<lparr>clients = [], commands = []\<rparr>"

text \<open>
  \<^verbatim>\<open>deactivate\<close>: the callback calls \<^verbatim>\<open>client.dispose()\<close> on every value of the
  map, with no test for \<^verbatim>\<open>null\<close>. The result is the trace up to the end of the
  call and how it ended: a \<^verbatim>\<open>TypeError\<close> thrown out of the loop, or the promise
  \<^verbatim>\<open>Promise.all(promises)\<close>, whose elements are the \<^verbatim>\<open>undefined\<close> values that
  \<^verbatim>\<open>dispose\<close> returned.
\<close>

fun deactivate :: "clients_map \<Rightarrow> effect list \<times> (js_error + unit)" where
  "deactivate [] = ([], Inr ())"
| "deactivate ((key, None) # rest) = ([], Inl TypeError)"
| "deactivate ((key, Some c) # rest) =
     (let (tr, r) = deactivate rest in (Client_dispose c @ tr, r))"

text \<open>The identities of the current roots.\<close>

definition folder_keys :: "WorkspaceFolder list \<Rightarrow> string list" where
  "folder_keys fs = map (\<lambda>f. uri_toString (uri f)) fs"

definition folders_of :: "WorkspaceFolder list option \<Rightarrow> WorkspaceFolder list" where
  "folders_of workspaceFolders = (case workspaceFolders of None \<Rightarrow> [] | Some fs \<Rightarrow> fs)"

definition roots :: "WorkspaceFolder list option \<Rightarrow> string set" where
  "roots workspaceFolders = set (folder_keys (folders_of workspaceFolders))"

text \<open>What the second loop does for one entry.\<close>

definition stale_effects :: "string list \<Rightarrow> string \<times> Client option \<Rightarrow> effect list" where
  "stale_effects idx e =
     (if \<not> index_truthy idx (fst e)
      then [console_log ''deleting client'' (fst e), clients_delete (fst e)]
           @ (case snd e of Some cl \<Rightarrow> Client_dispose cl | None \<Rightarrow> [])
      else [])"


text \<open>Whether a trace brings an output channel to the foreground.\<close>

fun is_outputChannel_show :: "effect \<Rightarrow> bool" where
  "is_outputChannel_show (outputChannel_show n preserveFocus) = True"
| "is_outputChannel_show e = False"

definition surfaces_channel :: "effect list \<Rightarrow> bool" where
  "surfaces_channel tr = list_ex is_outputChannel_show tr"

text \<open>
  Whether a trace creates anything: a probe for the marker file, an output channel, a
  language client or an indicator.
\<close>

fun is_creation :: "effect \<Rightarrow> bool" where
  "is_creation (findConfigFile p) = True"
| "is_creation (createOutputChannel n) = True"
| "is_creation (new_LanguageClient key a) = True"
| "is_creation (new_ClientStatusBarItem key) = True"
| "is_creation e = False"

text \<open>No key of the map is a property name of \<^verbatim>\<open>Object.prototype\<close>.\<close>

definition no_prototype_keys :: "clients_map \<Rightarrow> bool" where
  "no_prototype_keys m = (\<forall>k \<in> set (map fst m). k \<notin> set Object_prototype)"



section \<open>Concrete inputs\<close>

text \<open>
  An editor with the folder \<^verbatim>\<open>file:///proj\<close> open, standing in for the two
  parameters: a document belongs to the folder when its URI starts with the folder's,
  and it matches the filter of the extensions \<^verbatim>\<open>graphql\<close>, \<^verbatim>\<open>gql\<close> when its
  URI ends in one of them.
\<close>

definition example_getWorkspaceFolder :: "string \<Rightarrow> string option" where
  "example_getWorkspaceFolder u =
     (if take 13 u = ''file:///proj/'' then Some ''file:///proj'' else None)"

definition example_match :: "DocumentFilter \<Rightarrow> TextDocument \<Rightarrow> nat" where
  "example_match f doc =
     (if scheme f = ''file'' \<and> pattern f = ''**/*.{graphql,gql}''
         \<and> (take 4 (rev (doc_uri doc)) = rev ''.gql'' \<or> take 8 (rev (doc_uri doc)) = rev ''.graphql'')
      then 10 else 0)"

definition example_api :: vscode where
  "example_api = \<lparr>getWorkspaceFolder = example_getWorkspaceFolder, languages_match = example_match\<rparr>"

definition example_client :: LanguageClient where
  "example_client =
     \<lparr>args = [''--watchman=npx watchman''], outputChannel = ''Graphql-proj'',
      workspaceFolder = ''file:///proj'', initializeResult = None\<rparr>"

text \<open>The indicator of that client as the constructor leaves it, no editor focused.\<close>

definition example_indicator :: indicator where
  "example_indicator =
     \<lparr>this = \<lparr>item = Some \<lparr>item_text = ''$(sync) GQL'',
                             item_tooltip = Some ''Graphql language server is initializing.'',
                             item_color = Some ''white'',
                             item_command = Some ''showOutputChannel-Graphql-proj'',
                             item_visible = False\<rparr>,
              client = Some example_client,
              disposables = [the_item, the_command ''showOutputChannel-Graphql-proj'']\<rparr>,
      registered_commands = [''showOutputChannel-Graphql-proj''],
      onDidChangeActiveTextEditor = True, onDidChangeState = True, onReady = True, trace = []\<rparr>"

text \<open>The same once the server has answered with its extensions.\<close>

definition example_initialized_client :: LanguageClient where
  "example_initialized_client =
     example_client\<lparr>initializeResult := Some \<lparr>fileExtensions = Some [''graphql'', ''gql'']\<rparr>\<rparr>"

definition example_initialized :: indicator where
  "example_initialized =
     example_indicator\<lparr>this := (this example_indicator)\<lparr>client := Some example_initialized_client\<rparr>\<rparr>"

definition editor_on :: "string \<Rightarrow> TextEditor option" where
  "editor_on u = Some \<lparr>document = \<lparr>doc_uri = u\<rparr>\<rparr>"

text \<open>
  Folders \<^verbatim>\<open>/proj\<close>, \<^verbatim>\<open>/docs\<close>, \<^verbatim>\<open>/other\<close> and, with the same name in
  two directories, \<^verbatim>\<open>/a/proj\<close> and \<^verbatim>\<open>/b/proj\<close>. All but \<^verbatim>\<open>/docs\<close> have the
  marker file. The name of a folder is the last part of its path, as the editor sets it.
\<close>

definition folder_at :: "string \<Rightarrow> WorkspaceFolder" where
  "folder_at n = \<lparr>uri = \<lparr>uri_scheme = ''file'', uri_rest = ''///'' @ n, fsPath = ''/'' @ n\<rparr>, name = n\<rparr>"

definition folder_in :: "string \<Rightarrow> string \<Rightarrow> WorkspaceFolder" where
  "folder_in dir n =
     \<lparr>uri = \<lparr>uri_scheme = ''file'', uri_rest = ''///'' @ dir @ ''/'' @ n,
             fsPath = ''/'' @ dir @ ''/'' @ n\<rparr>,
      name = n\<rparr>"

definition example_workspace :: workspace where
  "example_workspace =
     \<lparr>configuration_of = (\<lambda>key. config_watchman),
      path_join = (\<lambda>p. p),
      findConfigFile_silent =
        (\<lambda>p. p = ''/proj'' \<or> p = ''/other'' \<or> p = ''/a/proj'' \<or> p = ''/b/proj'')\<rparr>"

definition client_at :: "string \<Rightarrow> Client" where
  "client_at n =
     \<lparr>c_client = \<lparr>args = [''--watchman=npx watchman''], outputChannel = ''Graphql-'' @ n,
                  workspaceFolder = ''file:///'' @ n, initializeResult = None\<rparr>\<rparr>"

definition client_in :: "string \<Rightarrow> string \<Rightarrow> Client" where
  "client_in dir n =
     \<lparr>c_client = \<lparr>args = [''--watchman=npx watchman''], outputChannel = ''Graphql-'' @ n,
                  workspaceFolder = ''file:///'' @ dir @ ''/'' @ n, initializeResult = None\<rparr>\<rparr>"


text \<open>
  The state that the call for \<^verbatim>\<open>/a/proj\<close> and \<^verbatim>\<open>/b/proj\<close> leaves when it throws:
  only the first folder has an entry.
\<close>

definition example_aborted :: extension where
  "example_aborted =
     \<lparr>clients = [(''file:///a/proj'', Some (client_in ''a'' ''proj''))],
      commands = [''showOutputChannel-Graphql-proj'']\<rparr>"

definition with_visible :: "bool \<Rightarrow> indicator \<Rightarrow> indicator" where
  "with_visible b w =
     w\<lparr>this := (this w)\<lparr>item := map_option (\<lambda>it. it\<lparr>item_visible := b\<rparr>) (item (this w))\<rparr>\<rparr>"

definition example_shown :: indicator where
  "example_shown = with_visible True example_indicator"

section \<open>Properties of the launch arguments\<close>

text \<open>
  C8, as stated, fails: with only \<^verbatim>\<open>autoDownloadGQL\<close> set (to \<^verbatim>\<open>true\<close>) the code
  emits \<^verbatim>\<open>--auto-download-gql=true\<close>, which is not \<^verbatim>\<open>--autoDownloadGQL=true\<close>,
  the \<^verbatim>\<open>--key=value\<close> entry of that configuration key.
\<close>

theorem run_args_not_key_value:
  "run_args config_autoDownload = [''--auto-download-gql=true'']
   \<and> spec_args config_autoDownload = [''--autoDownloadGQL=true'']
   \<and> run_args config_autoDownload \<noteq> spec_args config_autoDownload"
  by (simp add: run_args_def spec_args_def spec_entry_def config_autoDownload_def has_def get_def)

text \<open>
  C8, amended: for every per-root configuration the argument list is the entry of
  \<^verbatim>\<open>watchman\<close> under the flag \<^verbatim>\<open>--watchman\<close> followed by the entry of
  \<^verbatim>\<open>autoDownloadGQL\<close> under the flag \<^verbatim>\<open>--auto-download-gql\<close>; a key that is set
  gives exactly one entry \<^verbatim>\<open>--flag=value\<close>, a key that is not set gives none; and
  the configuration with \<^verbatim>\<open>watchman\<close> set to \<^verbatim>\<open>npx watchman\<close> and nothing else
  yields exactly \<^verbatim>\<open>--watchman=npx watchman\<close>.
\<close>

theorem run_args_flags:
  "run_args configuration =
     flag_entry configuration ''watchman'' ''watchman''
     @ flag_entry configuration ''auto-download-gql'' ''autoDownloadGQL''
   \<and> run_args config_watchman = [''--watchman=npx watchman'']"
  by (simp add: run_args_def flag_entry_def config_watchman_def has_def get_def)

section \<open>Properties of the status indicator\<close>

lemma setStatus_live:
  "item self = Some it \<Longrightarrow>
   setStatus status self =
     Inr (self\<lparr>item := Some (it\<lparr>item_text := ''$('' @ icon (STATUS_BAR_UI status) @ '') GQL'',
                                  item_tooltip := Some (tooltip (STATUS_BAR_UI status)),
                                  item_color := Some (color (STATUS_BAR_UI status))\<rparr>)\<rparr>)"
  by (simp add: setStatus_def STATUS_BAR_ITEM_NAME_def Let_def)

lemma setStatus_shows:
  "live w \<Longrightarrow>
   \<exists>w'. on_this (setStatus status) w = Inr w' \<and> live w' \<and> shows_status status w'
        \<and> client (this w') = client (this w) \<and> trace w' = trace w"
  by (auto simp: live_def on_this_def setStatus_live shows_status_def renders_def)

lemma updateVisibility_keeps:
  "live w \<Longrightarrow> on_this (updateVisibility api ed) w = Inr w' \<Longrightarrow>
   live w' \<and> shows_status s w' = shows_status s w"
  by (auto simp: live_def on_this_def updateVisibility_def show_item_def hide_item_def
        shows_status_def renders_def split: sum.splits if_splits option.splits)

lemma deliver_step:
  assumes l: "live w" and d: "deliver api ev w = Inr w'"
  shows "live w' \<and> (shows_status s w \<longrightarrow> shows_status (transition s ev) w')"
proof (cases ev)
  case (DidChangeState old new)
  show ?thesis
  proof (cases new)
    case Stopped
    with l d DidChangeState setStatus_shows[OF l, of error] show ?thesis
      by (auto simp: stateChange_listener_def live_def)
  next
    case Running
    with l d DidChangeState setStatus_shows[OF l, of ok] show ?thesis
      by (auto simp: stateChange_listener_def live_def)
  next
    case Starting
    with l d DidChangeState show ?thesis
      by (auto simp: stateChange_listener_def live_def)
  qed
next
  case ReadyResolved
  with l d setStatus_shows[OF l, of ok] show ?thesis by (auto simp: live_def)
next
  case ReadyRejected
  with l d setStatus_shows[OF l, of error] show ?thesis by (auto simp: live_def)
next
  case (DidChangeActiveTextEditor ed)
  with l d updateVisibility_keeps[OF l, of api ed w' s] show ?thesis
    by (auto simp: live_def)
next
  case (Initialized r)
  with l d show ?thesis
    by (auto simp: live_def shows_status_def split: option.splits)
next
  case Click
  with l d show ?thesis
    by (auto simp: live_def shows_status_def showOutputChannel_command_def
          split: option.splits if_splits)
qed

lemma example_constructed:
  "ClientStatusBarItem_constructor example_api None example_client = Inr example_indicator"
  by (simp add: ClientStatusBarItem_constructor_def example_indicator_def example_client_def
        addOnClickToShowOutputChannel_def and_then_def on_this_def setStatus_def
        STATUS_BAR_ITEM_NAME_def createStatusBarItem_def registerStatusChangeListeners_def
        updateVisibility_def compute_hide_def hide_item_def Let_def)

lemma constructor_live:
  assumes "ClientStatusBarItem_constructor api ed c = Inr w0"
  shows "live w0 \<and> shows_status init w0"
  using assms
  by (auto simp: ClientStatusBarItem_constructor_def addOnClickToShowOutputChannel_def
        and_then_def on_this_def setStatus_def STATUS_BAR_ITEM_NAME_def createStatusBarItem_def
        registerStatusChangeListeners_def updateVisibility_def hide_item_def show_item_def
        Let_def live_def shows_status_def renders_def
        split: sum.splits if_splits)

lemma deliver_all_follows:
  "live w \<Longrightarrow> shows_status s w \<Longrightarrow> deliver_all api evs w = Inr w' \<Longrightarrow>
   live w' \<and> shows_status (foldl transition s evs) w'"
proof (induction evs arbitrary: w s)
  case Nil
  then show ?case by simp
next
  case (Cons ev evs)
  from Cons.prems(3) obtain w1 where d: "deliver api ev w = Inr w1"
    and r: "deliver_all api evs w1 = Inr w'"
    by (auto split: sum.splits)
  from deliver_step[OF Cons.prems(1) d, of s] Cons.prems(2)
  have "live w1" and "shows_status (transition s ev) w1" by auto
  from Cons.IH[OF this r] show ?case by simp
qed

lemma status_event_succeeds:
  "live w \<Longrightarrow> status_event ev \<Longrightarrow> \<exists>w'. deliver api ev w = Inr w'"
  by (cases ev) (auto simp: live_def stateChange_listener_def on_this_def setStatus_def Let_def)

lemma status_events_succeed:
  "live w \<Longrightarrow> list_all status_event evs \<Longrightarrow> \<exists>w'. deliver_all api evs w = Inr w'"
proof (induction evs arbitrary: w)
  case Nil
  then show ?case by simp
next
  case (Cons ev evs)
  then obtain w1 where d: "deliver api ev w = Inr w1"
    using status_event_succeeds[of w ev api] by auto
  with Cons.prems deliver_step[OF Cons.prems(1) d, of init] have "live w1" by simp
  with Cons.IH[of w1] Cons.prems(2) d show ?case by simp
qed

lemma example_indicator_live: "live example_indicator"
  by (simp add: live_def example_indicator_def)

lemma example_initialized_live: "live example_initialized"
  by (simp add: live_def example_initialized_def example_indicator_def)

text \<open>
  C5: at the end of construction the indicator shows \<open>init\<close>. From there, whatever
  events are delivered, the status shown after them is the one the transition table
  gives, folded over the events; state changes and the settling of the ready promise
  are always handled; and the five sequences of the table end in \<open>ok\<close>, \<open>error\<close>,
  \<open>ok\<close>, \<open>error\<close> and, for running followed by stopped, \<open>error\<close>.
\<close>

theorem indicator_follows_transition_table:
  assumes "ClientStatusBarItem_constructor api activeTextEditor c = Inr w0"
  shows "shows_status init w0
     \<and> (\<forall>evs w'. deliver_all api evs w0 = Inr w' \<longrightarrow> shows_status (foldl transition init evs) w')
     \<and> (\<forall>evs. list_all status_event evs \<longrightarrow> (\<exists>w'. deliver_all api evs w0 = Inr w'))
     \<and> (\<exists>w'. deliver_all api [DidChangeState old1 Running] w0 = Inr w' \<and> shows_status ok w')
     \<and> (\<exists>w'. deliver_all api [DidChangeState old2 Stopped] w0 = Inr w' \<and> shows_status error w')
     \<and> (\<exists>w'. deliver_all api [ReadyResolved] w0 = Inr w' \<and> shows_status ok w')
     \<and> (\<exists>w'. deliver_all api [ReadyRejected] w0 = Inr w' \<and> shows_status error w')
     \<and> (\<exists>w'. deliver_all api [DidChangeState old3 Running, DidChangeState old4 Stopped] w0 = Inr w'
              \<and> shows_status error w')"
proof -
  from constructor_live[OF assms] have l: "live w0" and i: "shows_status init w0" by auto
  have follows: "shows_status (foldl transition init evs) w'"
    if "deliver_all api evs w0 = Inr w'" for evs w'
    using deliver_all_follows[OF l i that] by simp
  have succeeds: "\<exists>w'. deliver_all api evs w0 = Inr w'" if "list_all status_event evs" for evs
    using status_events_succeed[OF l that] .
  have row: "\<exists>w'. deliver_all api evs w0 = Inr w' \<and> shows_status (foldl transition init evs) w'"
    if "list_all status_event evs" for evs
    using succeeds[OF that] follows by blast
  have r1: "\<exists>w'. deliver_all api [DidChangeState old1 Running] w0 = Inr w' \<and> shows_status ok w'"
    using row[of "[DidChangeState old1 Running]"] by simp
  have r2: "\<exists>w'. deliver_all api [DidChangeState old2 Stopped] w0 = Inr w' \<and> shows_status error w'"
    using row[of "[DidChangeState old2 Stopped]"] by simp
  have r3: "\<exists>w'. deliver_all api [ReadyResolved] w0 = Inr w' \<and> shows_status ok w'"
    using row[of "[ReadyResolved]"] by simp
  have r4: "\<exists>w'. deliver_all api [ReadyRejected] w0 = Inr w' \<and> shows_status error w'"
    using row[of "[ReadyRejected]"] by simp
  have r5: "\<exists>w'. deliver_all api [DidChangeState old3 Running, DidChangeState old4 Stopped] w0 = Inr w'
              \<and> shows_status error w'"
    using row[of "[DidChangeState old3 Running, DidChangeState old4 Stopped]"] by simp
  from i follows succeeds r1 r2 r3 r4 r5 show ?thesis by blast
qed

theorem indicator_follows_transition_table_witness:
  "ClientStatusBarItem_constructor example_api None example_client = Inr example_indicator
   \<and> shows_status init example_indicator
   \<and> (\<exists>w'. deliver_all example_api [DidChangeState Starting Running, DidChangeState Running Stopped]
              example_indicator = Inr w' \<and> shows_status error w')"
  using indicator_follows_transition_table[OF example_constructed, of Starting Stopped Starting Running]
    example_constructed
  by blast

text \<open>
  C10: a state change to a state that is neither running nor stopped leaves the
  indicator as it was, its status and its text, tooltip and colour included.
\<close>

theorem other_state_change_is_noop:
  "newState \<noteq> Running \<Longrightarrow> newState \<noteq> Stopped \<Longrightarrow>
   deliver api (DidChangeState oldState newState) w = Inr w"
  by (simp add: stateChange_listener_def)

theorem other_state_change_is_noop_witness:
  "Starting \<noteq> Running \<and> Starting \<noteq> Stopped
   \<and> deliver example_api (DidChangeState Stopped Starting) example_indicator = Inr example_indicator"
  using other_state_change_is_noop[of Starting example_api Stopped example_indicator]
  by simp

text \<open>
  C6: on every change of the active editor, a live indicator whose client carries the
  extension list once initialized ends with exactly the visibility of the rule, and
  nothing else changed: hidden with no focused document or a document of another root,
  visible before initialization, and after it visible exactly when the document matches
  the filter built from the extensions.
\<close>

theorem visibility_rule:
  assumes "live w" and "client (this w) = Some c" and "item (this w) = Some it"
    and "advertises_extensions c"
  shows "deliver api (DidChangeActiveTextEditor focused) w =
           Inr (w\<lparr>this := (this w)\<lparr>item := Some (it\<lparr>item_visible :=
                  spec_visible api (workspaceFolder c) (initializeResult c) focused\<rparr>)\<rparr>\<rparr>)"
  using assms
  by (auto simp: live_def advertises_extensions_def spec_visible_def on_this_def
        updateVisibility_def compute_hide_def checkDocumentInsideWorkspace_def getWorkspace_def
        hide_item_def show_item_def
        split: option.splits bool.splits)


lemma example_item:
  "item (this example_initialized) =
     Some \<lparr>item_text = ''$(sync) GQL'',
           item_tooltip = Some ''Graphql language server is initializing.'',
           item_color = Some ''white'',
           item_command = Some ''showOutputChannel-Graphql-proj'',
           item_visible = False\<rparr>"
  by (simp add: example_initialized_def example_indicator_def)

lemma example_advertises: "advertises_extensions example_initialized_client"
  by (simp add: advertises_extensions_def example_initialized_client_def)

lemma example_initialized_client_of:
  "client (this example_initialized) = Some example_initialized_client"
  by (simp add: example_initialized_def)

lemma example_uninitialized_item:
  "item (this example_indicator) =
     Some \<lparr>item_text = ''$(sync) GQL'',
           item_tooltip = Some ''Graphql language server is initializing.'',
           item_color = Some ''white'',
           item_command = Some ''showOutputChannel-Graphql-proj'',
           item_visible = False\<rparr>"
  by (simp add: example_indicator_def)

lemma example_client_advertises: "advertises_extensions example_client"
  by (simp add: advertises_extensions_def example_client_def)

lemma example_client_of: "client (this example_indicator) = Some example_client"
  by (simp add: example_indicator_def)

text \<open>
  The scenarios of the specification: before initialization a document of the root
  shows the indicator (A); with the extensions \<^verbatim>\<open>graphql\<close>, \<^verbatim>\<open>gql\<close> the file
  \<^verbatim>\<open>foo.gql\<close> of the root shows it and \<^verbatim>\<open>foo.ts\<close> hides it (B); a document
  outside the root, or none, hides it (C).
\<close>

theorem visibility_rule_witness:
  "live example_initialized \<and> advertises_extensions example_initialized_client
   \<and> deliver example_api (DidChangeActiveTextEditor (editor_on ''file:///proj/foo.ts'')) example_indicator
       = Inr (with_visible True example_indicator)
   \<and> deliver example_api (DidChangeActiveTextEditor (editor_on ''file:///proj/foo.gql'')) example_initialized
       = Inr (with_visible True example_initialized)
   \<and> deliver example_api (DidChangeActiveTextEditor (editor_on ''file:///proj/foo.ts'')) example_initialized
       = Inr (with_visible False example_initialized)
   \<and> deliver example_api (DidChangeActiveTextEditor (editor_on ''file:///elsewhere/foo.gql'')) example_initialized
       = Inr (with_visible False example_initialized)
   \<and> deliver example_api (DidChangeActiveTextEditor None) example_initialized
       = Inr (with_visible False example_initialized)"
proof -
  note rule = visibility_rule[OF example_initialized_live example_initialized_client_of example_item
      example_advertises, of example_api]
  note rule0 = visibility_rule[OF example_indicator_live example_client_of example_uninitialized_item
      example_client_advertises, of example_api]
  have a0: "spec_visible example_api (workspaceFolder example_client)
             (initializeResult example_client) (editor_on ''file:///proj/foo.ts'')"
    by (simp add: spec_visible_def example_api_def example_getWorkspaceFolder_def
          example_client_def editor_on_def)
  have a: "spec_visible example_api (workspaceFolder example_initialized_client)
             (initializeResult example_initialized_client) (editor_on ''file:///proj/foo.gql'')"
    by (simp add: spec_visible_def example_api_def example_getWorkspaceFolder_def example_match_def
          example_initialized_client_def example_client_def editor_on_def extension_filter_def)
  have b: "\<not> spec_visible example_api (workspaceFolder example_initialized_client)
             (initializeResult example_initialized_client) (editor_on ''file:///proj/foo.ts'')"
    by (simp add: spec_visible_def example_api_def example_getWorkspaceFolder_def example_match_def
          example_initialized_client_def example_client_def editor_on_def extension_filter_def)
  have c: "\<not> spec_visible example_api (workspaceFolder example_initialized_client)
             (initializeResult example_initialized_client) (editor_on ''file:///elsewhere/foo.gql'')"
    by (simp add: spec_visible_def example_api_def example_getWorkspaceFolder_def
          example_initialized_client_def example_client_def editor_on_def)
  have d: "\<not> spec_visible example_api (workspaceFolder example_initialized_client)
             (initializeResult example_initialized_client) None"
    by (simp add: spec_visible_def)
  have t0: "with_visible True example_indicator =
      example_indicator\<lparr>this := (this example_indicator)\<lparr>item := Some
        (\<lparr>item_text = ''$(sync) GQL'',
           item_tooltip = Some ''Graphql language server is initializing.'',
           item_color = Some ''white'',
           item_command = Some ''showOutputChannel-Graphql-proj'',
           item_visible = False\<rparr>\<lparr>item_visible := True\<rparr>)\<rparr>\<rparr>"
    by (simp add: with_visible_def example_uninitialized_item)
  have t: "with_visible True example_initialized =
      example_initialized\<lparr>this := (this example_initialized)\<lparr>item := Some
        (\<lparr>item_text = ''$(sync) GQL'',
           item_tooltip = Some ''Graphql language server is initializing.'',
           item_color = Some ''white'',
           item_command = Some ''showOutputChannel-Graphql-proj'',
           item_visible = False\<rparr>\<lparr>item_visible := True\<rparr>)\<rparr>\<rparr>"
    by (simp add: with_visible_def example_item)
  have f: "with_visible False example_initialized =
      example_initialized\<lparr>this := (this example_initialized)\<lparr>item := Some
        (\<lparr>item_text = ''$(sync) GQL'',
           item_tooltip = Some ''Graphql language server is initializing.'',
           item_color = Some ''white'',
           item_command = Some ''showOutputChannel-Graphql-proj'',
           item_visible = False\<rparr>\<lparr>item_visible := False\<rparr>)\<rparr>\<rparr>"
    by (simp add: with_visible_def example_item)
  show ?thesis
    using rule[of "editor_on ''file:///proj/foo.gql''"] rule[of "editor_on ''file:///proj/foo.ts''"]
      rule[of "editor_on ''file:///elsewhere/foo.gql''"] rule[of None]
      rule0[of "editor_on ''file:///proj/foo.ts''"]
      a0 a b c d example_initialized_live example_advertises
    by (simp only: t0 t f simp_thms)
qed

text \<open>
  C9, on the code: the constructed indicator is disposed. The item is released and the
  command unregistered, but the three listeners stay subscribed, and each of them, run
  after the disposal, dereferences \<^verbatim>\<open>null\<close>: a change of the active editor (to a
  document or to none), a state change to stopped, the ready promise resolving.
\<close>

theorem disposed_indicator_still_listens:
  "ClientStatusBarItem_constructor example_api None example_client = Inr example_indicator
   \<and> item (this (dispose example_indicator)) = None
   \<and> client (this (dispose example_indicator)) = None
   \<and> registered_commands (dispose example_indicator) = []
   \<and> trace (dispose example_indicator) = [item_dispose, command_dispose ''showOutputChannel-Graphql-proj'']
   \<and> onDidChangeActiveTextEditor (dispose example_indicator)
   \<and> onDidChangeState (dispose example_indicator)
   \<and> onReady (dispose example_indicator)
   \<and> deliver example_api (DidChangeActiveTextEditor None) (dispose example_indicator) = Inl TypeError
   \<and> deliver example_api (DidChangeActiveTextEditor (editor_on ''file:///proj/foo.gql''))
        (dispose example_indicator) = Inl TypeError
   \<and> deliver example_api (DidChangeState Running Stopped) (dispose example_indicator) = Inl TypeError
   \<and> deliver example_api ReadyResolved (dispose example_indicator) = Inl TypeError"
  using example_constructed
  by (simp add: dispose_def example_indicator_def example_api_def editor_on_def
       on_this_def updateVisibility_def compute_hide_def checkDocumentInsideWorkspace_def
       getWorkspace_def example_getWorkspaceFolder_def hide_item_def show_item_def setStatus_def
       stateChange_listener_def Let_def)

text \<open>
  C7, as stated, fails: the failure handler itself brings the output channel to the
  foreground (\<^verbatim>\<open>client.outputChannel.show(true)\<close>).
\<close>

theorem failure_handler_shows_channel:
  "surfaces_channel (fst (initializationFailedHandler example_client ''spawn ENOENT''))"
  by (simp add: surfaces_channel_def initializationFailedHandler_def)

text \<open>
  C7, amended: when initialization fails, the handler logs the error to the client's
  own output channel, shows that channel itself (keeping the focus where it is) and
  returns \<^verbatim>\<open>false\<close>, so there is no retry, and it touches neither the registry nor
  the client; the rejected ready promise puts a live indicator into \<open>error\<close> with
  its client kept; a click on the shown indicator shows the channel as well; and the
  channel of a client is the one created for its own folder.
\<close>

theorem initialization_failure_handling:
  "initializationFailedHandler c message =
     ([client_error (outputChannel c) ''Server initialization failed:'' message,
       outputChannel_show (outputChannel c) True], False)
   \<and> (live w \<longrightarrow>
        (\<exists>w'. deliver api ReadyRejected w = Inr w' \<and> shows_status error w'
              \<and> client (this w') = client (this w) \<and> trace w' = trace w))
   \<and> (clickable w \<and> client (this w) = Some c \<longrightarrow>
        deliver api Click w = Inr (w\<lparr>trace := trace w @ [outputChannel_show (outputChannel c) False]\<rparr>))
   \<and> (fst (createClientForWorkspace env registered folder) = Inr (Some cl) \<longrightarrow>
        outputChannel (c_client cl) = ''Graphql-'' @ name folder
        \<and> workspaceFolder (c_client cl) = uri_toString (uri folder))"
proof -
  have own: "outputChannel (c_client cl) = ''Graphql-'' @ name folder
        \<and> workspaceFolder (c_client cl) = uri_toString (uri folder)"
    if "fst (createClientForWorkspace env registered folder) = Inr (Some cl)"
    using that
    by (auto simp: createClientForWorkspace_def registerCommand_def Let_def split: if_splits)
  have h: "initializationFailedHandler c message =
     ([client_error (outputChannel c) ''Server initialization failed:'' message,
       outputChannel_show (outputChannel c) True], False)"
    by (simp add: initializationFailedHandler_def)
  have r: "\<exists>w'. deliver api ReadyRejected w = Inr w' \<and> shows_status error w'
              \<and> client (this w') = client (this w) \<and> trace w' = trace w" if l: "live w"
    using setStatus_shows[OF l, of error] l by (auto simp: live_def)
  have k: "deliver api Click w = Inr (w\<lparr>trace := trace w @ [outputChannel_show (outputChannel c) False]\<rparr>)"
    if "clickable w" and "client (this w) = Some c"
    using that by (auto simp: clickable_def showOutputChannel_command_def split: option.splits)
  from h r k own show ?thesis by blast
qed

theorem initialization_failure_handling_witness:
  "live example_indicator
   \<and> (\<exists>w'. deliver example_api ReadyRejected example_indicator = Inr w' \<and> shows_status error w'
             \<and> client (this w') = Some example_client \<and> trace w' = [])
   \<and> clickable example_shown \<and> client (this example_shown) = Some example_client
   \<and> deliver example_api Click example_shown
       = Inr (example_shown\<lparr>trace := [outputChannel_show ''Graphql-proj'' False]\<rparr>)
   \<and> fst (createClientForWorkspace example_workspace [] (folder_at ''proj''))
       = Inr (Some (client_at ''proj''))
   \<and> outputChannel (c_client (client_at ''proj'')) = ''Graphql-proj''"
proof -
  have mk: "fst (createClientForWorkspace example_workspace [] (folder_at ''proj''))
      = Inr (Some (client_at ''proj''))"
    by (simp add: createClientForWorkspace_def folder_at_def example_workspace_def client_at_def
          uri_toString_def registerCommand_def run_args_def config_watchman_def has_def get_def
          Let_def)
  from initialization_failure_handling[of example_client "''x''" example_indicator example_api
      example_workspace "[]" "folder_at ''proj''" "client_at ''proj''"] mk
  have 3: "outputChannel (c_client (client_at ''proj'')) = ''Graphql-proj''"
    by (simp add: folder_at_def)
  have c: "clickable example_shown" and cl: "client (this example_shown) = Some example_client"
    and tr: "trace example_shown = []"
    by (simp_all add: clickable_def example_shown_def with_visible_def example_indicator_def)
  have ci: "client (this example_indicator) = Some example_client" and ti: "trace example_indicator = []"
    by (simp_all add: example_indicator_def)
  have oc: "outputChannel example_client = ''Graphql-proj''" by (simp add: example_client_def)
  from initialization_failure_handling[of example_client "''x''" example_indicator example_api]
    example_indicator_live
  have 1: "\<exists>w'. deliver example_api ReadyRejected example_indicator = Inr w' \<and> shows_status error w'
             \<and> client (this w') = Some example_client \<and> trace w' = []"
    by (simp add: ci ti)
  from initialization_failure_handling[of example_client "''x''" example_shown example_api] c cl
  have 2: "deliver example_api Click example_shown
       = Inr (example_shown\<lparr>trace := [outputChannel_show ''Graphql-proj'' False]\<rparr>)"
    by (simp add: tr oc)
  from 1 2 3 mk c cl example_indicator_live show ?thesis by blast
qed

section \<open>Properties of the registry\<close>

lemma folder_keys_simps [simp]:
  "folder_keys [] = []"
  "folder_keys (f # fs) = uri_toString (uri f) # folder_keys fs"
  by (simp_all add: folder_keys_def)

lemma Map_set_map_fst:
  "map fst (Map_set key v m) = (if key \<in> set (map fst m) then map fst m else map fst m @ [key])"
  by (induction m) (force+)

lemma Map_set_keys: "fst ` set (Map_set key v m) = insert key (fst ` set m)"
  using arg_cong[OF Map_set_map_fst, of set key v m]
  by (auto simp del: set_map simp: set_map[symmetric])

lemma Map_set_distinct: "distinct (map fst m) \<Longrightarrow> distinct (map fst (Map_set key v m))"
  by (simp add: Map_set_map_fst)





lemma create_throws:
  "findConfigFile_silent env (path_join env (fsPath (uri f))) \<Longrightarrow>
   ''showOutputChannel-Graphql-'' @ name f \<in> set registered \<Longrightarrow>
   fst (createClientForWorkspace env registered f)
     = Inl (CommandExists (''showOutputChannel-Graphql-'' @ name f))"
  by (simp add: createClientForWorkspace_def registerCommand_def commandName_def Let_def)

text \<open>The first loop.\<close>

lemma add_folders_noop:
  "set (folder_keys fs) \<subseteq> set (map fst m) \<Longrightarrow>
   add_folders env fs (m, idx, registered, tr) = (None, m, idx @ folder_keys fs, registered, tr)"
  by (induction fs arbitrary: idx) (auto simp: Let_def Map_has_def)

lemma add_folders_complete:
  "add_folders env fs (m, idx, registered, tr) = (None, m', idx', registered', tr') \<Longrightarrow>
   idx' = idx @ folder_keys fs \<and> set (map fst m') = set (map fst m) \<union> set (folder_keys fs)"
proof (induction fs arbitrary: m idx registered tr)
  case Nil
  then show ?case by simp
next
  case (Cons f fs)
  let ?key = "uri_toString (uri f)"
  show ?case
  proof (cases "Map_has ?key m")
    case True
    with Cons.prems have "add_folders env fs (m, idx @ [?key], registered, tr)
        = (None, m', idx', registered', tr')" by simp
    from Cons.IH[OF this] True show ?thesis by (auto simp: Map_has_def)
  next
    case False
    obtain r reg effs where ce: "createClientForWorkspace env registered f = (r, reg, effs)"
      by (cases "createClientForWorkspace env registered f")
    show ?thesis
    proof (cases r)
      case (Inl e)
      with False ce Cons.prems show ?thesis by (simp add: Let_def)
    next
      case (Inr c)
      with False ce Cons.prems
      have "add_folders env fs (Map_set ?key c m, idx @ [?key], reg,
              tr @ effs @ [console_log ''adding client'' ?key, clients_set ?key (c \<noteq> None)])
            = (None, m', idx', registered', tr')" by (simp add: Let_def)
      from Cons.IH[OF this] show ?thesis by (auto simp: Map_set_keys)
    qed
  qed
qed


lemma add_folders_distinct:
  "distinct (map fst m) \<Longrightarrow>
   distinct (map fst (fst (snd (add_folders env fs (m, idx, registered, tr)))))"
  by (induction fs arbitrary: m idx registered tr)
     (auto simp: Let_def Map_set_distinct split: prod.splits sum.splits)



text \<open>The second loop.\<close>

lemma remove_stale_map:
  "fst (remove_stale idx es (m, registered, tr)) =
     filter (\<lambda>(k, c). k \<notin> set (map fst es) \<or> index_truthy idx k) m"
proof (induction es arbitrary: m registered tr)
  case Nil
  then show ?case by simp
next
  case (Cons e es)
  obtain key c where e: "e = (key, c)" by (cases e)
  show ?case
  proof (cases "index_truthy idx key")
    case True
    have "filter (\<lambda>(k, c). k \<notin> set (map fst (e # es)) \<or> index_truthy idx k) m
        = filter (\<lambda>(k, c). k \<notin> set (map fst es) \<or> index_truthy idx k) m"
      using True e by (intro filter_cong) auto
    with True e Cons.IH show ?thesis by simp
  next
    case False
    have "filter (\<lambda>(k, c). k \<notin> set (map fst (e # es)) \<or> index_truthy idx k) m
        = filter (\<lambda>(k, c). k \<notin> set (map fst es) \<or> index_truthy idx k) (Map_delete key m)"
      using False e unfolding Map_delete_def filter_filter by (intro filter_cong) auto
    with False e Cons.IH show ?thesis by simp
  qed
qed

lemma remove_stale_noop:
  "\<forall>k \<in> set (map fst es). index_truthy idx k \<Longrightarrow> remove_stale idx es st = st"
  by (induction es arbitrary: st) (auto split: prod.splits)

lemma remove_stale_trace:
  "snd (snd (remove_stale idx es (m, registered, tr))) = tr @ concat (map (stale_effects idx) es)"
  by (induction es arbitrary: m registered tr) (auto simp: stale_effects_def)

lemma prototype_no_colon: "k \<in> set Object_prototype \<Longrightarrow> CHR '':'' \<notin> set k"
  by (auto simp: Object_prototype_def)

lemma uri_not_prototype: "uri_toString u \<notin> set Object_prototype"
proof
  assume "uri_toString u \<in> set Object_prototype"
  from prototype_no_colon[OF this] show False by (simp add: uri_toString_def)
qed

lemma folder_keys_not_prototype: "k \<in> set (folder_keys fs) \<Longrightarrow> k \<notin> set Object_prototype"
  by (auto simp: folder_keys_def uri_not_prototype)

text \<open>A call that does not throw, in terms of its two loops.\<close>

lemma call_thrown:
  "thrown (createClientForWorkspaces env folders s)
     = fst (add_folders env (folders_of folders) (clients s, [], commands s, []))"
  by (simp add: createClientForWorkspaces_def folders_of_def Let_def split: prod.splits option.splits)

lemma call_complete:
  assumes "thrown (createClientForWorkspaces env folders s) = None"
  obtains m1 registered1 tr1 where
    "add_folders env (folders_of folders) (clients s, [], commands s, [])
       = (None, m1, folder_keys (folders_of folders), registered1, tr1)"
    and "clients (after (createClientForWorkspaces env folders s))
       = filter (\<lambda>(k, c). index_truthy (folder_keys (folders_of folders)) k) m1"
    and "calls (createClientForWorkspaces env folders s)
       = tr1 @ concat (map (stale_effects (folder_keys (folders_of folders))) m1)"
    and "set (map fst m1) = set (map fst (clients s)) \<union> set (folder_keys (folders_of folders))"
proof -
  let ?F = "folders_of folders"
  obtain e m1 idx registered1 tr1 where
    a: "add_folders env ?F (clients s, [], commands s, []) = (e, m1, idx, registered1, tr1)"
    by (cases "add_folders env ?F (clients s, [], commands s, [])")
  with assms have e: "e = None" by (simp add: call_thrown)
  from add_folders_complete[OF a[unfolded e]] have idx: "idx = folder_keys ?F"
    and keys: "set (map fst m1) = set (map fst (clients s)) \<union> set (folder_keys ?F)" by simp_all
  obtain m2 registered2 tr2 where
    r: "remove_stale idx m1 (m1, registered1, tr1) = (m2, registered2, tr2)"
    by (cases "remove_stale idx m1 (m1, registered1, tr1)")
  have c: "createClientForWorkspaces env folders s
      = \<lparr>thrown = None, after = \<lparr>clients = m2, commands = registered2\<rparr>, calls = tr2\<rparr>"
    using a e r by (simp add: createClientForWorkspaces_def folders_of_def Let_def)
  have "filter (\<lambda>(k, c). k \<notin> set (map fst m1) \<or> index_truthy idx k) m1
      = filter (\<lambda>(k, c). index_truthy idx k) m1"
    by (intro filter_cong) force+
  with remove_stale_map[of idx m1 m1 registered1 tr1] r
  have m2: "m2 = filter (\<lambda>(k, c). index_truthy idx k) m1" by simp
  from remove_stale_trace[of idx m1 m1 registered1 tr1] r
  have tr2: "tr2 = tr1 @ concat (map (stale_effects idx) m1)" by simp
  from that[OF a[unfolded e idx]] c m2 tr2 idx keys show thesis by simp
qed

lemma roots_folders: "roots folders = set (folder_keys (folders_of folders))"
  by (simp add: roots_def)

text \<open>
  What holds of a call that does not throw: the keys of the map after it are the
  current roots, each once.
\<close>

lemma keys_are_roots_when_complete:
  assumes "no_prototype_keys (clients s)"
    and "thrown (createClientForWorkspaces env folders s) = None"
  shows "set (map fst (clients (after (createClientForWorkspaces env folders s)))) = roots folders"
proof -
  let ?F = "folder_keys (folders_of folders)"
  from call_complete[OF assms(2)] obtain m1 where
    m2: "clients (after (createClientForWorkspaces env folders s))
       = filter (\<lambda>(k, c). index_truthy ?F k) m1"
    and k1: "set (map fst m1) = set (map fst (clients s)) \<union> set ?F" by metis
  have "set (map fst (clients (after (createClientForWorkspaces env folders s))))
      = {k \<in> set (map fst m1). index_truthy ?F k}"
    unfolding m2 by force
  also have "\<dots> = set ?F"
    using assms(1) k1 by (auto simp: index_truthy_def no_prototype_keys_def)
  finally show ?thesis by (simp add: roots_folders)
qed

lemma index_truthy_cong: "set idx = set idx' \<Longrightarrow> index_truthy idx k = index_truthy idx' k"
  by (simp add: index_truthy_def)

text \<open>
  After a call that did not throw, a second call with the same set of roots does
  nothing.
\<close>

lemma idempotent_when_complete:
  assumes "roots folders2 = roots folders1"
    and "thrown (createClientForWorkspaces env1 folders1 s) = None"
  shows "createClientForWorkspaces env2 folders2 (after (createClientForWorkspaces env1 folders1 s))
     = \<lparr>thrown = None, after = after (createClientForWorkspaces env1 folders1 s), calls = []\<rparr>"
proof -
  let ?F1 = "folder_keys (folders_of folders1)"
  let ?F2 = "folder_keys (folders_of folders2)"
  let ?s' = "after (createClientForWorkspaces env1 folders1 s)"
  from assms(1) have same: "set ?F2 = set ?F1" by (simp add: roots_folders)
  from call_complete[OF assms(2)] obtain m1 where
    m2: "clients ?s' = filter (\<lambda>(k, c). index_truthy ?F1 k) m1"
    and k1: "set (map fst m1) = set (map fst (clients s)) \<union> set ?F1" by metis
  have "\<forall>k \<in> set (map fst (clients ?s')). index_truthy ?F1 k"
    unfolding m2 by auto
  with index_truthy_cong[OF same]
  have truthy: "\<forall>k \<in> set (map fst (clients ?s')). index_truthy ?F2 k" by simp
  from k1 have "set ?F1 \<subseteq> set (map fst (clients ?s'))"
    unfolding m2 by (force simp: index_truthy_def)
  with same have present: "set ?F2 \<subseteq> set (map fst (clients ?s'))" by simp
  have a: "add_folders env2 (folders_of folders2) (clients ?s', [], commands ?s', [])
      = (None, clients ?s', ?F2, commands ?s', [])"
    using add_folders_noop[OF present, of env2 "[]" "commands ?s'" "[]"] by simp
  show ?thesis
    using a remove_stale_noop[OF truthy, of "(clients ?s', commands ?s', [])"]
    by (simp add: createClientForWorkspaces_def folders_of_def Let_def)
qed

text \<open>
  The command the registry follows is the one the constructor of the indicator
  registers.
\<close>

lemma constructor_registers_commandName:
  assumes "ClientStatusBarItem_constructor api ed c = Inr w"
  shows "registered_commands w = [commandName c]"
  using assms
  by (auto simp: ClientStatusBarItem_constructor_def addOnClickToShowOutputChannel_def
        and_then_def on_this_def setStatus_def createStatusBarItem_def
        registerStatusChangeListeners_def updateVisibility_def hide_item_def show_item_def
        commandName_def Let_def
        split: sum.splits if_splits)

text \<open>
  Two roots with the same folder name, \<^verbatim>\<open>/a/proj\<close> and \<^verbatim>\<open>/b/proj\<close>, both with
  the marker file, opened together: the second indicator registers the command of the
  first, the call throws, and only the first root has an entry. The same call again
  finds \<^verbatim>\<open>/b/proj\<close> without entry, probes and creates for it once more and throws
  again.
\<close>

lemma example_abort:
  "createClientForWorkspaces example_workspace
       (Some [folder_in ''a'' ''proj'', folder_in ''b'' ''proj'']) initial
     = \<lparr>thrown = Some (CommandExists ''showOutputChannel-Graphql-proj''),
        after = example_aborted,
        calls = [getConfiguration ''file:///a/proj'', findConfigFile ''/a/proj'',
                 createOutputChannel ''Graphql-proj'',
                 new_LanguageClient ''file:///a/proj'' [''--watchman=npx watchman''],
                 new_ClientStatusBarItem ''file:///a/proj'', client_start ''file:///a/proj'',
                 console_log ''adding client'' ''file:///a/proj'',
                 clients_set ''file:///a/proj'' True,
                 getConfiguration ''file:///b/proj'', findConfigFile ''/b/proj'',
                 createOutputChannel ''Graphql-proj'',
                 new_LanguageClient ''file:///b/proj'' [''--watchman=npx watchman'']]\<rparr>"
  by (simp add: createClientForWorkspaces_def createClientForWorkspace_def initial_def
        example_aborted_def folder_in_def client_in_def example_workspace_def uri_toString_def
        Map_has_def registerCommand_def commandName_def run_args_def config_watchman_def
        has_def get_def Let_def)

lemma example_abort_again:
  "createClientForWorkspaces example_workspace
       (Some [folder_in ''a'' ''proj'', folder_in ''b'' ''proj'']) example_aborted
     = \<lparr>thrown = Some (CommandExists ''showOutputChannel-Graphql-proj''),
        after = example_aborted,
        calls = [getConfiguration ''file:///b/proj'', findConfigFile ''/b/proj'',
                 createOutputChannel ''Graphql-proj'',
                 new_LanguageClient ''file:///b/proj'' [''--watchman=npx watchman'']]\<rparr>"
  by (simp add: createClientForWorkspaces_def createClientForWorkspace_def
        example_aborted_def folder_in_def client_in_def example_workspace_def uri_toString_def
        Map_has_def registerCommand_def commandName_def run_args_def config_watchman_def
        has_def get_def Let_def)

lemma example_same_name_roots:
  "roots (Some [folder_in ''a'' ''proj'', folder_in ''b'' ''proj''])
     = {''file:///a/proj'', ''file:///b/proj''}"
  by (auto simp: roots_def folders_of_def folder_keys_def folder_in_def uri_toString_def)

text \<open>
  C1, on the code: from the state of the loaded module, the call for the roots
  \<^verbatim>\<open>/a/proj\<close> and \<^verbatim>\<open>/b/proj\<close> throws, and the keys of the map after it are
  not the current roots: \<^verbatim>\<open>file:///b/proj\<close> has no entry.
\<close>

theorem same_name_roots_abort:
  "thrown (createClientForWorkspaces example_workspace
       (Some [folder_in ''a'' ''proj'', folder_in ''b'' ''proj'']) initial)
     = Some (CommandExists ''showOutputChannel-Graphql-proj'')
   \<and> map fst (clients (after (createClientForWorkspaces example_workspace
       (Some [folder_in ''a'' ''proj'', folder_in ''b'' ''proj'']) initial)))
     = [''file:///a/proj'']
   \<and> roots (Some [folder_in ''a'' ''proj'', folder_in ''b'' ''proj''])
     = {''file:///a/proj'', ''file:///b/proj''}
   \<and> set (map fst (clients (after (createClientForWorkspaces example_workspace
       (Some [folder_in ''a'' ''proj'', folder_in ''b'' ''proj'']) initial))))
     \<noteq> roots (Some [folder_in ''a'' ''proj'', folder_in ''b'' ''proj''])"
  unfolding example_abort example_same_name_roots
  by (simp add: example_aborted_def)

text \<open>
  C2, on the code: the state that this call leaves is the result of a reconcile with
  the roots \<^verbatim>\<open>/a/proj\<close> and \<^verbatim>\<open>/b/proj\<close>; the call again, with the same roots,
  probes \<^verbatim>\<open>/b/proj\<close> for the marker file and creates an output channel and a
  language client for it, so its trace is not empty.
\<close>

theorem second_call_creates_again:
  "after (createClientForWorkspaces example_workspace
       (Some [folder_in ''a'' ''proj'', folder_in ''b'' ''proj'']) initial) = example_aborted
   \<and> calls (createClientForWorkspaces example_workspace
       (Some [folder_in ''a'' ''proj'', folder_in ''b'' ''proj'']) example_aborted)
     = [getConfiguration ''file:///b/proj'', findConfigFile ''/b/proj'',
        createOutputChannel ''Graphql-proj'',
        new_LanguageClient ''file:///b/proj'' [''--watchman=npx watchman'']]
   \<and> list_ex is_creation (calls (createClientForWorkspaces example_workspace
       (Some [folder_in ''a'' ''proj'', folder_in ''b'' ''proj'']) example_aborted))
   \<and> thrown (createClientForWorkspaces example_workspace
       (Some [folder_in ''a'' ''proj'', folder_in ''b'' ''proj'']) example_aborted)
     = Some (CommandExists ''showOutputChannel-Graphql-proj'')"
  unfolding example_abort example_abort_again
  by simp






text \<open>
  C4, on the code: with \<^verbatim>\<open>proj\<close>, \<^verbatim>\<open>docs\<close> and \<^verbatim>\<open>other\<close> open, the map
  holds \<^verbatim>\<open>null\<close> for \<^verbatim>\<open>docs\<close>; \<^verbatim>\<open>deactivate\<close> disposes the client of
  \<^verbatim>\<open>proj\<close>, then throws at the \<^verbatim>\<open>null\<close> entry, and the client of
  \<^verbatim>\<open>other\<close> is never disposed.
\<close>

theorem deactivate_throws_on_tombstone:
  "deactivate [(''file:///proj'', Some (client_at ''proj'')), (''file:///docs'', None),
               (''file:///other'', Some (client_at ''other''))]
     = (Client_dispose (client_at ''proj''), Inl TypeError)
   \<and> thrown (createClientForWorkspaces example_workspace
            (Some [folder_at ''proj'', folder_at ''docs'', folder_at ''other'']) initial) = None
   \<and> clients (after (createClientForWorkspaces example_workspace
            (Some [folder_at ''proj'', folder_at ''docs'', folder_at ''other'']) initial))
     = [(''file:///proj'', Some (client_at ''proj'')), (''file:///docs'', None),
        (''file:///other'', Some (client_at ''other''))]"
  by (simp add: createClientForWorkspaces_def createClientForWorkspace_def folder_at_def
        initial_def example_workspace_def client_at_def uri_toString_def Map_has_def
        index_truthy_def Object_prototype_def registerCommand_def commandName_def
        run_args_def config_watchman_def has_def get_def Let_def)

text \<open>With no \<^verbatim>\<open>null\<close> entry in the map, every client is disposed, in order.\<close>

lemma deactivate_without_tombstones:
  "list_all (\<lambda>(k, c). c \<noteq> None) m \<Longrightarrow>
   deactivate m = (concat (map (\<lambda>(k, c). case c of Some cl \<Rightarrow> Client_dispose cl | None \<Rightarrow> []) m), Inr ())"
  by (induction m rule: deactivate.induct) (auto split: prod.splits)

end
